theory Spec2Isabelle
  imports Main "HOL-Library.Word"
begin

section \<open>Data model of quic/handshake/FizzCryptoFactory.cpp\<close>

text \<open>
  Byte buffers (\<^verbatim>\<open>folly::ByteRange\<close>, \<^verbatim>\<open>Buf\<close>, the result of \<^verbatim>\<open>coalesce()\<close>) are
  modelled by the sequence of bytes they hold; \<^verbatim>\<open>folly::IOBuf::create(0)\<close> is the
  empty sequence. A \<^verbatim>\<open>folly::IOBufQueue\<close> is the sequence of bytes queued in it:
  \<^verbatim>\<open>empty()\<close> holds when there are none, \<^verbatim>\<open>move()\<close> hands out all of them and leaves
  the queue empty.
\<close>

type_synonym byte = "8 word"
type_synonym Buf = "byte list"
type_synonym ByteRange = "byte list"
type_synonym IOBufQueue = "byte list"
type_synonym ConnectionId = "byte list"

text \<open>The enumerators of \<^verbatim>\<open>fizz::ContentType\<close> (the TLS record content types).\<close>

datatype ContentType = change_cipher_spec | alert | handshake | application_data

text \<open>The enumerators of \<^verbatim>\<open>fizz::EncryptionLevel\<close>.\<close>

datatype EncryptionLevel = Plaintext | Handshake | EarlyData | AppTraffic

record TLSMessage =
  type :: ContentType
  fragment :: Buf

record TLSContent =
  data :: Buf
  contentType :: ContentType
  encryptionLevel :: EncryptionLevel

section \<open>Record layer adapters\<close>

text \<open>
  The two read adapters. The encrypted one stores the encryption level its
  constructor hands to the base class.
\<close>

datatype ReadRecordLayer =
  QuicPlaintextReadRecordLayer
| QuicEncryptedReadRecordLayer EncryptionLevel

text \<open>
  \<^verbatim>\<open>read(folly::IOBufQueue& buf)\<close>: the queue is taken by reference, so the model
  returns the optional message together with the queue as the call leaves it.
  One equation per overriding class, each following its own source text.
\<close>

fun read :: "ReadRecordLayer \<Rightarrow> IOBufQueue \<Rightarrow> TLSMessage option \<times> IOBufQueue" where
  "read QuicPlaintextReadRecordLayer buf =
     (if buf = [] then (None, buf)
      else (Some \<lparr>type = handshake, fragment = buf\<rparr>, []))"
| "read (QuicEncryptedReadRecordLayer level) buf =
     (if buf = [] then (None, buf)
      else (Some \<lparr>type = handshake, fragment = buf\<rparr>, []))"

text \<open>The two write adapters.\<close>

datatype WriteRecordLayer =
  QuicPlaintextWriteRecordLayer
| QuicEncryptedWriteRecordLayer EncryptionLevel

text \<open>
  \<^verbatim>\<open>getEncryptionLevel()\<close> is inherited from the fizz base classes: the encrypted
  write record layer answers the level passed to its constructor, the plaintext one
  is constructed without a level and answers \<^verbatim>\<open>EncryptionLevel::Plaintext\<close>.
\<close>

fun getEncryptionLevel :: "WriteRecordLayer \<Rightarrow> EncryptionLevel" where
  "getEncryptionLevel QuicPlaintextWriteRecordLayer = Plaintext"
| "getEncryptionLevel (QuicEncryptedWriteRecordLayer level) = level"

text \<open>
  \<^verbatim>\<open>write(fizz::TLSMessage&& msg)\<close>, named \<open>write_msg\<close> here. One equation per
  overriding class.
\<close>

fun write_msg :: "WriteRecordLayer \<Rightarrow> TLSMessage \<Rightarrow> TLSContent" where
  "write_msg QuicPlaintextWriteRecordLayer msg =
     \<lparr>data = fragment msg,
      contentType = type msg,
      encryptionLevel = getEncryptionLevel QuicPlaintextWriteRecordLayer\<rparr>"
| "write_msg (QuicEncryptedWriteRecordLayer level) msg =
     \<lparr>data = fragment msg,
      contentType = type msg,
      encryptionLevel = getEncryptionLevel (QuicEncryptedWriteRecordLayer level)\<rparr>"

text \<open>
  \<^verbatim>\<open>writeInitialClientHello\<close> is a member of the plaintext write adapter only, so
  the \<^verbatim>\<open>write\<close> it calls is that adapter's.
\<close>

definition writeInitialClientHello :: "Buf \<Rightarrow> TLSContent" where
  "writeInitialClientHello encodedClientHello =
     write_msg QuicPlaintextWriteRecordLayer \<lparr>type = handshake, fragment = encodedClientHello\<rparr>"

text \<open>The factory's constructors of the four adapters.\<close>

definition makePlaintextReadRecordLayer :: ReadRecordLayer where
  "makePlaintextReadRecordLayer = QuicPlaintextReadRecordLayer"

definition makePlaintextWriteRecordLayer :: WriteRecordLayer where
  "makePlaintextWriteRecordLayer = QuicPlaintextWriteRecordLayer"

definition makeEncryptedReadRecordLayer :: "EncryptionLevel \<Rightarrow> ReadRecordLayer" where
  "makeEncryptedReadRecordLayer level = QuicEncryptedReadRecordLayer level"

definition makeEncryptedWriteRecordLayer :: "EncryptionLevel \<Rightarrow> WriteRecordLayer" where
  "makeEncryptedWriteRecordLayer level = QuicEncryptedWriteRecordLayer level"


section \<open>Crypto factory\<close>

subsection \<open>Versions, cipher suites and the capabilities of the TLS library\<close>

text \<open>
  \<^verbatim>\<open>QuicVersion\<close>: the four enumerators the version switch names, and one
  constructor for every other value of the type (the switch's \<^verbatim>\<open>default\<close>), carrying
  the tag's number.
\<close>

datatype QuicVersion = MVFST_OLD | MVFST | QUIC_DRAFT_22 | QUIC_DRAFT | OtherVersion nat

text \<open>
  \<^verbatim>\<open>fizz::CipherSuite\<close>: the two enumerators the suite switch names, and one
  constructor for every other value (the switch's \<^verbatim>\<open>default\<close>).
\<close>

datatype CipherSuite =
  TLS_AES_128_GCM_SHA256
| TLS_AES_256_GCM_SHA384
| OtherCipherSuite nat

text \<open>
  The key deriver is a capability of the TLS library: the factory only calls its
  \<^verbatim>\<open>hkdfExtract(salt, ikm)\<close> and \<^verbatim>\<open>expandLabel(secret, label, hashValue, length)\<close>.
  Both are kept as parameters, total functions over byte sequences. The length
  parameter of \<^verbatim>\<open>expandLabel\<close> is a \<^verbatim>\<open>uint16_t\<close>; the factory passes it values of
  type \<^verbatim>\<open>size_t\<close>, which the call narrows to their low 16 bits. Sizes are natural
  numbers here and \<open>narrow_uint16\<close> is that conversion, written at every call.
\<close>

definition narrow_uint16 :: "nat \<Rightarrow> nat" where
  "narrow_uint16 n = n mod 65536"

record KeyDerivation =
  hkdfExtract :: "ByteRange \<Rightarrow> ByteRange \<Rightarrow> Buf"
  expandLabel :: "ByteRange \<Rightarrow> string \<Rightarrow> Buf \<Rightarrow> nat \<Rightarrow> Buf"

record TrafficKey =
  key :: Buf
  iv :: Buf

text \<open>
  A \<^verbatim>\<open>fizz::Aead\<close> object: what it answers to \<^verbatim>\<open>keyLength()\<close> and \<^verbatim>\<open>ivLength()\<close>,
  and the traffic key \<^verbatim>\<open>setKey\<close> has installed in it, if any.
\<close>

record fizz_Aead =
  keyLength :: nat
  ivLength :: nat
  trafficKey :: "TrafficKey option"

definition Aead_setKey :: "fizz_Aead \<Rightarrow> TrafficKey \<Rightarrow> fizz_Aead" where
  "Aead_setKey aead k = aead\<lparr>trafficKey := Some k\<rparr>"

text \<open>
  The two factory methods \<^verbatim>\<open>FizzCryptoFactory\<close> inherits from the TLS library's
  factory, as parameters.
\<close>

record fizz_Factory =
  makeKeyDeriver :: "CipherSuite \<Rightarrow> KeyDerivation"
  makeAead :: "CipherSuite \<Rightarrow> fizz_Aead"

text \<open>\<^verbatim>\<open>fizz::Sha256::HashLen\<close>: a SHA-256 digest has 32 bytes.\<close>

definition Sha256_HashLen :: nat where
  "Sha256_HashLen = 32"

subsection \<open>Declarations of the repository that the file includes\<close>

text \<open>
  The three salt constants and the key lengths that the two packet number cipher
  classes answer to \<^verbatim>\<open>keyLength()\<close> are declared in headers of the repository; the
  specification does not give their values, so they are parameters of the model.
  A salt is a \<^verbatim>\<open>folly::StringPiece\<close> that \<^verbatim>\<open>hkdfExtract\<close> receives as the bytes it
  holds.
\<close>

record QuicConstants =
  kQuicDraft17Salt :: ByteRange
  kQuicDraft22Salt :: ByteRange
  kQuicDraft23Salt :: ByteRange
  Aes128PacketNumberCipher_keyLength :: nat
  Aes256PacketNumberCipher_keyLength :: nat

text \<open>
  Modelled from the spec: the label constants \<^verbatim>\<open>kQuicKeyLabel\<close>, \<^verbatim>\<open>kQuicIVLabel\<close> and
  \<^verbatim>\<open>kQuicPNLabel\<close>, declared in a header the file includes. The specification
  fixes the key-material labels as "quic key", "quic iv" and "quic hp", for the
  key, the iv and the header protection key.
\<close>

definition kQuicKeyLabel :: string where
  "kQuicKeyLabel = ''quic key''"

definition kQuicIVLabel :: string where
  "kQuicIVLabel = ''quic iv''"

definition kQuicPNLabel :: string where
  "kQuicPNLabel = ''quic hp''"

text \<open>
  Modelled from the spec: \<^verbatim>\<open>FizzAead\<close> and \<^verbatim>\<open>FizzAead::wrap\<close> of
  quic/handshake/FizzBridge.h. The packet protection AEAD adapter "wraps a generic
  AEAD engine (already configured with a key/iv via the Crypto Factory) behind the
  transport's sealing/opening capability".
\<close>

datatype Aead = FizzAead fizz_Aead

definition FizzAead_wrap :: "fizz_Aead \<Rightarrow> Aead" where
  "FizzAead_wrap fizzAeadIn = FizzAead fizzAeadIn"

text \<open>
  Modelled from the spec: the classes \<^verbatim>\<open>Aes128PacketNumberCipher\<close> and
  \<^verbatim>\<open>Aes256PacketNumberCipher\<close> of quic/handshake/FizzPacketNumberCipher.h. A packet
  number cipher instance is a "capability object bound to one header-protection
  key", and \<^verbatim>\<open>setKey(headerProtectionKey)\<close> "binds the key". A freshly constructed
  cipher has no key.
\<close>

datatype PacketNumberCipher =
  Aes128PacketNumberCipher "Buf option"
| Aes256PacketNumberCipher "Buf option"

fun PacketNumberCipher_setKey :: "PacketNumberCipher \<Rightarrow> ByteRange \<Rightarrow> PacketNumberCipher" where
  "PacketNumberCipher_setKey (Aes128PacketNumberCipher old) k = Aes128PacketNumberCipher (Some k)"
| "PacketNumberCipher_setKey (Aes256PacketNumberCipher old) k = Aes256PacketNumberCipher (Some k)"

fun PacketNumberCipher_keyLength :: "QuicConstants \<Rightarrow> PacketNumberCipher \<Rightarrow> nat" where
  "PacketNumberCipher_keyLength c (Aes128PacketNumberCipher k) = Aes128PacketNumberCipher_keyLength c"
| "PacketNumberCipher_keyLength c (Aes256PacketNumberCipher k) = Aes256PacketNumberCipher_keyLength c"

subsection \<open>The factory's operations\<close>

text \<open>The one exception the file throws: \<^verbatim>\<open>std::runtime_error\<close> with its message.\<close>

datatype error = runtime_error string

definition makeInitialTrafficSecret ::
  "fizz_Factory \<Rightarrow> QuicConstants \<Rightarrow> string \<Rightarrow> ConnectionId \<Rightarrow> QuicVersion \<Rightarrow> Buf" where
  "makeInitialTrafficSecret f c label clientDestinationConnId version =
     (let deriver = makeKeyDeriver f TLS_AES_128_GCM_SHA256;
          connIdRange = clientDestinationConnId;
          salt = (case version of
                    MVFST_OLD \<Rightarrow> kQuicDraft17Salt c
                  | MVFST \<Rightarrow> kQuicDraft22Salt c
                  | QUIC_DRAFT_22 \<Rightarrow> kQuicDraft22Salt c
                  | QUIC_DRAFT \<Rightarrow> kQuicDraft23Salt c
                  | OtherVersion n \<Rightarrow> kQuicDraft17Salt c);
          initialSecret = hkdfExtract deriver salt connIdRange;
          trafficSecret = expandLabel deriver initialSecret label []
                            (narrow_uint16 Sha256_HashLen)
      in trafficSecret)"

definition makeInitialAead ::
  "fizz_Factory \<Rightarrow> QuicConstants \<Rightarrow> string \<Rightarrow> ConnectionId \<Rightarrow> QuicVersion \<Rightarrow> Aead" where
  "makeInitialAead f c label clientDestinationConnId version =
     (let trafficSecret = makeInitialTrafficSecret f c label clientDestinationConnId version;
          deriver = makeKeyDeriver f TLS_AES_128_GCM_SHA256;
          aead = makeAead f TLS_AES_128_GCM_SHA256;
          k = expandLabel deriver trafficSecret kQuicKeyLabel []
                (narrow_uint16 (keyLength aead));
          i = expandLabel deriver trafficSecret kQuicIVLabel []
                (narrow_uint16 (ivLength aead));
          tk = \<lparr>key = k, iv = i\<rparr>
      in FizzAead_wrap (Aead_setKey aead tk))"

text \<open>
  The two overloads of \<^verbatim>\<open>makePacketNumberCipher\<close>, named after their parameter
  type. The suite-directed one throws on an unknown suite; the other one calls
  it, so an exception would pass through.
\<close>

fun makePacketNumberCipher_CipherSuite :: "CipherSuite \<Rightarrow> error + PacketNumberCipher" where
  "makePacketNumberCipher_CipherSuite TLS_AES_128_GCM_SHA256 = Inr (Aes128PacketNumberCipher None)"
| "makePacketNumberCipher_CipherSuite TLS_AES_256_GCM_SHA384 = Inr (Aes256PacketNumberCipher None)"
| "makePacketNumberCipher_CipherSuite (OtherCipherSuite n) =
     Inl (runtime_error ''Packet number cipher not implemented'')"

definition makePacketNumberCipher_ByteRange ::
  "fizz_Factory \<Rightarrow> QuicConstants \<Rightarrow> ByteRange \<Rightarrow> error + PacketNumberCipher" where
  "makePacketNumberCipher_ByteRange f c baseSecret =
     (case makePacketNumberCipher_CipherSuite TLS_AES_128_GCM_SHA256 of
        Inl e \<Rightarrow> Inl e
      | Inr pnCipher \<Rightarrow>
          (let deriver = makeKeyDeriver f TLS_AES_128_GCM_SHA256;
               pnKey = expandLabel deriver baseSecret kQuicPNLabel []
                         (narrow_uint16 (PacketNumberCipher_keyLength c pnCipher))
           in Inr (PacketNumberCipher_setKey pnCipher pnKey)))"

subsection \<open>A concrete instance of the parameters\<close>

text \<open>
  A small stand-in for the parameters, on which the operations can be evaluated:
  extraction appends the input to the salt, expansion appends the label's length
  and the context to the secret and cuts the result to the length asked for. It
  is not HKDF; it only shows which arguments reach the deriver. The AEAD has a
  16-byte key and a 12-byte iv, the packet number ciphers 16 and 32 byte keys.
\<close>

definition example_KeyDerivation :: KeyDerivation where
  "example_KeyDerivation =
     \<lparr>hkdfExtract = (\<lambda>salt ikm. salt @ ikm),
      expandLabel = (\<lambda>secret label hashValue n.
                       take n (secret @ [of_nat (length label)] @ hashValue))\<rparr>"

definition example_Factory :: fizz_Factory where
  "example_Factory =
     \<lparr>makeKeyDeriver = (\<lambda>suite. example_KeyDerivation),
      makeAead = (\<lambda>suite. \<lparr>keyLength = 16, ivLength = 12, trafficKey = None\<rparr>)\<rparr>"

definition example_Constants :: QuicConstants where
  "example_Constants =
     \<lparr>kQuicDraft17Salt = [17], kQuicDraft22Salt = [22], kQuicDraft23Salt = [23],
      Aes128PacketNumberCipher_keyLength = 16,
      Aes256PacketNumberCipher_keyLength = 32\<rparr>"

section \<open>Properties of the record layer adapters\<close>

text \<open>
  Claim C6. For both read record layers, \<open>read\<close> on an empty buffer returns no message
  (neither an error nor a message with empty content), and \<open>read\<close> on a non-empty
  buffer returns exactly one message of content type handshake whose fragment is the
  whole input and leaves the buffer empty: the buffer is never consumed in part.
\<close>

theorem read_empty_none_else_whole:
  "read rl [] = (None, [])
   \<and> read rl (b # bs) = (Some \<lparr>type = handshake, fragment = b # bs\<rparr>, [])
   \<and> read makePlaintextReadRecordLayer [] = (None, [])
   \<and> read (makeEncryptedReadRecordLayer level) [] = (None, [])
   \<and> read makePlaintextReadRecordLayer (b # bs)
       = (Some \<lparr>type = handshake, fragment = b # bs\<rparr>, [])
   \<and> read (makeEncryptedReadRecordLayer level) (b # bs)
       = (Some \<lparr>type = handshake, fragment = b # bs\<rparr>, [])"
  by (cases rl) (simp_all add: makePlaintextReadRecordLayer_def makeEncryptedReadRecordLayer_def)

text \<open>
  Claim C7. For both write record layers, \<open>write\<close> returns a content whose data is the
  message's fragment unchanged (no record framing is added), whose content type is
  the message's, and whose encryption level is the adapter's own: the level given to
  the constructor of the encrypted adapter, and the plaintext level for the
  plaintext adapter, which is constructed without one.
\<close>

theorem write_passes_message_through:
  "write_msg wl msg
     = \<lparr>data = fragment msg, contentType = type msg, encryptionLevel = getEncryptionLevel wl\<rparr>
   \<and> write_msg makePlaintextWriteRecordLayer msg
     = \<lparr>data = fragment msg, contentType = type msg, encryptionLevel = Plaintext\<rparr>
   \<and> write_msg (makeEncryptedWriteRecordLayer level) msg
     = \<lparr>data = fragment msg, contentType = type msg, encryptionLevel = level\<rparr>"
  by (cases wl) (simp_all add: makePlaintextWriteRecordLayer_def makeEncryptedWriteRecordLayer_def)

text \<open>
  Claim C8. For every encoded client hello \<open>b\<close>, \<open>writeInitialClientHello b\<close> of the
  plaintext write record layer is the content that \<open>write\<close> returns for the message
  of content type handshake whose fragment is \<open>b\<close>.
\<close>

theorem writeInitialClientHello_is_write:
  "writeInitialClientHello b
     = write_msg makePlaintextWriteRecordLayer \<lparr>type = handshake, fragment = b\<rparr>
   \<and> writeInitialClientHello b
     = \<lparr>data = b, contentType = handshake, encryptionLevel = Plaintext\<rparr>"
  by (simp add: writeInitialClientHello_def makePlaintextWriteRecordLayer_def)

text \<open>
  Claim C10. The plaintext and the encrypted read record layer compute the same
  \<open>read\<close>: for every input buffer both return the same message and leave the same
  buffer behind, whatever encryption level the encrypted reader was constructed with.
\<close>

theorem read_plaintext_eq_encrypted:
  "read makePlaintextReadRecordLayer buf = read (makeEncryptedReadRecordLayer level) buf"
  by (simp add: makePlaintextReadRecordLayer_def makeEncryptedReadRecordLayer_def)

section \<open>Properties of the crypto factory\<close>

text \<open>
  Claim C1. For every label, destination connection id and version,
  \<open>makeInitialTrafficSecret\<close> is HKDF-Expand-Label (HKDF-Extract (salt, connection id),
  label, empty context, SHA-256 hash length) with the deriver of the 128-bit
  AES-GCM/SHA-256 suite, where the salt is the constant of the version: the draft-17
  salt for \<open>MVFST_OLD\<close>, the draft-22 salt for \<open>MVFST\<close> and for \<open>QUIC_DRAFT_22\<close>, the
  draft-23 salt for \<open>QUIC_DRAFT\<close>, and the draft-17 salt as the default for every other
  version. The operation is a function of its arguments and has no failing branch.
\<close>

theorem makeInitialTrafficSecret_formula:
  "(let deriver = makeKeyDeriver f TLS_AES_128_GCM_SHA256;
        derive = (\<lambda>salt. expandLabel deriver (hkdfExtract deriver salt cid) label []
                            Sha256_HashLen)
    in makeInitialTrafficSecret f c label cid MVFST_OLD = derive (kQuicDraft17Salt c)
     \<and> makeInitialTrafficSecret f c label cid MVFST = derive (kQuicDraft22Salt c)
     \<and> makeInitialTrafficSecret f c label cid QUIC_DRAFT_22 = derive (kQuicDraft22Salt c)
     \<and> makeInitialTrafficSecret f c label cid QUIC_DRAFT = derive (kQuicDraft23Salt c)
     \<and> makeInitialTrafficSecret f c label cid (OtherVersion n) = derive (kQuicDraft17Salt c))
   \<and> Sha256_HashLen = 32"
  by (simp add: makeInitialTrafficSecret_def Let_def Sha256_HashLen_def narrow_uint16_def)

text \<open>
  Claim C2. For every label, destination connection id and version, \<open>makeInitialAead\<close>
  derives the initial traffic secret with the deriver of the 128-bit
  AES-GCM/SHA-256 suite (extraction from the version's salt and the connection id,
  expansion under the label to 32 bytes), expands it into the key (label
  "quic key", empty context) and the iv (label "quic iv", empty context), installs
  the pair in the AEAD made for that suite and returns this AEAD wrapped as the
  transport's \<open>Aead\<close>. The lengths asked of the deriver are the AEAD's key and iv
  length as 16-bit values; whenever both are below 65536, as those of every AEAD
  of the suite are, they are the AEAD's key and iv length themselves.
\<close>

theorem makeInitialAead_formula:
  "(let deriver = makeKeyDeriver f TLS_AES_128_GCM_SHA256;
        aead = makeAead f TLS_AES_128_GCM_SHA256;
        derive = (\<lambda>salt. expandLabel deriver (hkdfExtract deriver salt cid) label [] 32);
        install = (\<lambda>secret keyLen ivLen.
          FizzAead (aead\<lparr>trafficKey := Some
            \<lparr>key = expandLabel deriver secret ''quic key'' [] keyLen,
             iv = expandLabel deriver secret ''quic iv'' [] ivLen\<rparr>\<rparr>));
        k16 = keyLength aead mod 65536;
        i16 = ivLength aead mod 65536
    in (makeInitialAead f c label cid MVFST_OLD
          = install (derive (kQuicDraft17Salt c)) k16 i16
      \<and> makeInitialAead f c label cid MVFST
          = install (derive (kQuicDraft22Salt c)) k16 i16
      \<and> makeInitialAead f c label cid QUIC_DRAFT_22
          = install (derive (kQuicDraft22Salt c)) k16 i16
      \<and> makeInitialAead f c label cid QUIC_DRAFT
          = install (derive (kQuicDraft23Salt c)) k16 i16
      \<and> makeInitialAead f c label cid (OtherVersion n)
          = install (derive (kQuicDraft17Salt c)) k16 i16)
     \<and> (keyLength aead < 65536 \<and> ivLength aead < 65536 \<longrightarrow>
          makeInitialAead f c label cid MVFST_OLD
            = install (derive (kQuicDraft17Salt c)) (keyLength aead) (ivLength aead)
        \<and> makeInitialAead f c label cid MVFST
            = install (derive (kQuicDraft22Salt c)) (keyLength aead) (ivLength aead)
        \<and> makeInitialAead f c label cid QUIC_DRAFT_22
            = install (derive (kQuicDraft22Salt c)) (keyLength aead) (ivLength aead)
        \<and> makeInitialAead f c label cid QUIC_DRAFT
            = install (derive (kQuicDraft23Salt c)) (keyLength aead) (ivLength aead)
        \<and> makeInitialAead f c label cid (OtherVersion n)
            = install (derive (kQuicDraft17Salt c)) (keyLength aead) (ivLength aead)))"
  by (simp add: makeInitialAead_def makeInitialTrafficSecret_def Let_def FizzAead_wrap_def
      Aead_setKey_def kQuicKeyLabel_def kQuicIVLabel_def Sha256_HashLen_def narrow_uint16_def)

text \<open>
  At the concrete instance, whose AEAD has a 16-byte key and a 12-byte iv: the
  initial AEAD of the connection id 1, 2, 3 under \<open>MVFST\<close> for the label "client in".
\<close>

theorem makeInitialAead_formula_witness:
  "keyLength (makeAead example_Factory TLS_AES_128_GCM_SHA256) < 65536
   \<and> ivLength (makeAead example_Factory TLS_AES_128_GCM_SHA256) < 65536
   \<and> makeInitialAead example_Factory example_Constants ''client in'' [1, 2, 3] MVFST
     = FizzAead \<lparr>keyLength = 16, ivLength = 12, trafficKey = Some
         \<lparr>key = [22, 1, 2, 3, 9, 8], iv = [22, 1, 2, 3, 9, 7]\<rparr>\<rparr>"
  using makeInitialAead_formula [where f = example_Factory and c = example_Constants
      and label = "''client in''" and cid = "[1, 2, 3]" and n = 0]
  by (simp add: example_Factory_def example_KeyDerivation_def example_Constants_def Let_def)

text \<open>
  Claim C3. The suite-directed \<open>makePacketNumberCipher\<close> returns the AES-128 packet
  number cipher exactly when the suite is 128-bit AES-GCM/SHA-256, the AES-256 packet
  number cipher exactly when the suite is 256-bit AES-GCM/SHA-384, and fails with the
  "not implemented" runtime error exactly for every other suite. It takes no deriver
  and computes no key: the cipher it returns has none installed.
\<close>

theorem makePacketNumberCipher_CipherSuite_dispatch:
  "((\<exists>k. makePacketNumberCipher_CipherSuite cipher = Inr (Aes128PacketNumberCipher k))
      = (cipher = TLS_AES_128_GCM_SHA256))
   \<and> ((\<exists>k. makePacketNumberCipher_CipherSuite cipher = Inr (Aes256PacketNumberCipher k))
      = (cipher = TLS_AES_256_GCM_SHA384))
   \<and> ((makePacketNumberCipher_CipherSuite cipher
        = Inl (runtime_error ''Packet number cipher not implemented''))
      = (cipher \<noteq> TLS_AES_128_GCM_SHA256 \<and> cipher \<noteq> TLS_AES_256_GCM_SHA384))
   \<and> makePacketNumberCipher_CipherSuite TLS_AES_128_GCM_SHA256
      = Inr (Aes128PacketNumberCipher None)
   \<and> makePacketNumberCipher_CipherSuite TLS_AES_256_GCM_SHA384
      = Inr (Aes256PacketNumberCipher None)"
  by (cases cipher) simp_all

text \<open>
  Claim C4. For every base secret, the secret-directed \<open>makePacketNumberCipher\<close>
  succeeds and returns the packet number cipher of the 128-bit suite with the key
  HKDF-Expand-Label (base secret, "quic hp", empty context, length) installed,
  where the length is that cipher's key length as a 16-bit value; whenever the key
  length is below 65536, it is that cipher's key length itself.
\<close>

theorem makePacketNumberCipher_ByteRange_formula:
  "makePacketNumberCipher_ByteRange f c baseSecret =
     Inr (Aes128PacketNumberCipher (Some
       (expandLabel (makeKeyDeriver f TLS_AES_128_GCM_SHA256) baseSecret ''quic hp'' []
          (PacketNumberCipher_keyLength c (Aes128PacketNumberCipher None) mod 65536))))
   \<and> (PacketNumberCipher_keyLength c (Aes128PacketNumberCipher None) < 65536 \<longrightarrow>
        makePacketNumberCipher_ByteRange f c baseSecret =
          Inr (Aes128PacketNumberCipher (Some
            (expandLabel (makeKeyDeriver f TLS_AES_128_GCM_SHA256) baseSecret ''quic hp'' []
               (PacketNumberCipher_keyLength c (Aes128PacketNumberCipher None))))))"
  by (simp add: makePacketNumberCipher_ByteRange_def kQuicPNLabel_def Let_def narrow_uint16_def)

text \<open>
  At the concrete instance, whose 128-bit packet number cipher has a 16-byte key:
  the cipher made from the base secret 9, 9.
\<close>

theorem makePacketNumberCipher_ByteRange_formula_witness:
  "PacketNumberCipher_keyLength example_Constants (Aes128PacketNumberCipher None) < 65536
   \<and> makePacketNumberCipher_ByteRange example_Factory example_Constants [9, 9]
     = Inr (Aes128PacketNumberCipher (Some [9, 9, 7]))"
  using makePacketNumberCipher_ByteRange_formula [where f = example_Factory
      and c = example_Constants and baseSecret = "[9, 9]"]
  by (simp add: example_Factory_def example_KeyDerivation_def example_Constants_def)

text \<open>
  Claim C9. For every label and destination connection id, the initial traffic secret
  of a version the switch does not name is derived without failure from the
  draft-17 salt, the one used for \<open>MVFST_OLD\<close>, so it equals the secret derived under
  \<open>MVFST_OLD\<close>.
\<close>

theorem unrecognized_version_uses_draft17_salt:
  "makeInitialTrafficSecret f c label cid (OtherVersion n)
     = makeInitialTrafficSecret f c label cid MVFST_OLD
   \<and> makeInitialTrafficSecret f c label cid (OtherVersion n)
     = expandLabel (makeKeyDeriver f TLS_AES_128_GCM_SHA256)
         (hkdfExtract (makeKeyDeriver f TLS_AES_128_GCM_SHA256) (kQuicDraft17Salt c) cid)
         label [] Sha256_HashLen"
  by (simp add: makeInitialTrafficSecret_def Let_def Sha256_HashLen_def narrow_uint16_def)

subsection \<open>Versions that share a salt\<close>

text \<open>
  \<open>MVFST\<close> and \<open>QUIC_DRAFT_22\<close> fall into the same branch of the version switch, so
  their initial traffic secrets are the same bytes for every label and connection id.
\<close>

lemma makeInitialTrafficSecret_MVFST_eq_QUIC_DRAFT_22:
  "makeInitialTrafficSecret f c label cid MVFST
     = makeInitialTrafficSecret f c label cid QUIC_DRAFT_22"
  by (simp add: makeInitialTrafficSecret_def Let_def)

end
